theory Spec2Isabelle
  imports Main
begin

section \<open>Values\<close>

text \<open>
  The values the script handles come out of \<^verbatim>\<open>json.load\<close> and \<^verbatim>\<open>response.json()\<close>.
  \<open>JNull\<close> is Python's \<^verbatim>\<open>None\<close>. An object keeps its members in the order of the
  JSON text; a later member with the same key replaces an earlier one, as it does in the
  \<^verbatim>\<open>dict\<close> that the decoder builds. Numbers are integers (a number with a fraction or an
  exponent is outside this model).
\<close>

datatype json =
    JNull
  | JBool bool
  | JInt int
  | JStr string
  | JArr "json list"
  | JObj "(string \<times> json) list"

text \<open>The \<^verbatim>\<open>dict\<close> an object decodes to: the last binding of a key wins.\<close>

definition members :: "(string \<times> json) list \<Rightarrow> string \<rightharpoonup> json" where
  "members kvs = map_of (rev kvs)"

text \<open>\<^verbatim>\<open>d.get(key, default)\<close> on a \<^verbatim>\<open>dict\<close>.\<close>

definition dict_get :: "(string \<rightharpoonup> json) \<Rightarrow> string \<Rightarrow> json \<Rightarrow> json" where
  "dict_get d k dflt = (case d k of None \<Rightarrow> dflt | Some v \<Rightarrow> v)"

text \<open>Python's truth value of a decoded value, as \<^verbatim>\<open>if name:\<close> tests it.\<close>

fun truthy :: "json \<Rightarrow> bool" where
  "truthy JNull = False"
| "truthy (JBool b) = b"
| "truthy (JInt i) = (i \<noteq> 0)"
| "truthy (JStr s) = (s \<noteq> [])"
| "truthy (JArr xs) = (xs \<noteq> [])"
| "truthy (JObj kvs) = (kvs \<noteq> [])"

text \<open>
  Exceptions that leave a function of the script. \<open>SystemExit\<close> carries the argument of
  \<^verbatim>\<open>sys.exit\<close>; the others are raised by the Python runtime and are caught nowhere
  in the script.
\<close>

datatype exception =
    SystemExit int
  | AttributeError
  | TypeError
  | KeyError
  | OSError

section \<open>Configuration\<close>

definition LANGUAGES :: "string list" where
  "LANGUAGES = [''en'', ''ja'', ''de'', ''fr'']"

definition MAX_RETRIES :: nat where
  "MAX_RETRIES = 3"

section \<open>The endpoint and the effects of the process\<close>

text \<open>
  What the script observes of a \<^verbatim>\<open>requests.Response\<close>: its status code, the text of
  the \<^verbatim>\<open>HTTPError\<close> that \<^verbatim>\<open>raise_for_status()\<close> raises for this response when it
  raises, and the result of \<^verbatim>\<open>json()\<close>: the decoded body, or the text of the
  \<^verbatim>\<open>requests.exceptions.JSONDecodeError\<close> (a \<^verbatim>\<open>RequestException\<close>) when the body
  is not JSON.
\<close>

record response =
  status_code :: int
  http_error :: string
  body :: "string + json"

text \<open>
  The outcome of one \<^verbatim>\<open>session.get\<close>: a response, a \<^verbatim>\<open>requests.exceptions.Timeout\<close>,
  or another \<^verbatim>\<open>RequestException\<close> with its \<^verbatim>\<open>str()\<close>.
\<close>

datatype outcome =
    Response response
  | Timeout
  | RequestException string

text \<open>
  The effects of the process in the order they happen: \<^verbatim>\<open>time.sleep(REQUEST_DELAY)\<close>,
  \<^verbatim>\<open>time.sleep(n)\<close> for an integer number of seconds, and one HTTP GET for an item
  and a language.
\<close>

datatype event =
    Sleep_request_delay
  | Sleep_seconds nat
  | Get json string

text \<open>
  The fields of the \<open>DyeNameFetcher\<close> instance together with the effects so far. A failed
  request is the tuple \<^verbatim>\<open>(item_id, language, reason)\<close>. Standard output is not modelled
  here.
\<close>

record state =
  failed_requests :: "(json \<times> string \<times> string) list"
  total_requests :: nat
  successful_requests :: nat
  events :: "event list"

text \<open>\<^verbatim>\<open>DyeNameFetcher.__init__\<close>, in a process that has done nothing yet.\<close>

definition init :: state where
  "init = \<lparr>failed_requests = [], total_requests = 0, successful_requests = 0, events = []\<rparr>"

fun is_get :: "event \<Rightarrow> bool" where
  "is_get (Get i l) = True"
| "is_get e = False"

text \<open>The number of GETs the process has issued.\<close>

definition requests_sent :: "state \<Rightarrow> nat" where
  "requests_sent s = length (filter is_get (events s))"

definition sleep_request_delay :: "state \<Rightarrow> state" where
  "sleep_request_delay s = s\<lparr>events := events s @ [Sleep_request_delay]\<rparr>"

definition sleep_seconds :: "nat \<Rightarrow> state \<Rightarrow> state" where
  "sleep_seconds n s = s\<lparr>events := events s @ [Sleep_seconds n]\<rparr>"

text \<open>
  \<^verbatim>\<open>self.session.get(url, params=params, timeout=REQUEST_TIMEOUT)\<close>: the endpoint is
  the sequence \<open>net\<close> of outcomes, the \<open>n\<close>-th GET of the process receives \<open>net n\<close>.
\<close>

definition session_get :: "(nat \<Rightarrow> outcome) \<Rightarrow> json \<Rightarrow> string \<Rightarrow> state \<Rightarrow> outcome \<times> state" where
  "session_get net item_id language s =
     (net (requests_sent s), s\<lparr>events := events s @ [Get item_id language]\<rparr>)"

text \<open>\<^verbatim>\<open>self.failed_requests.append((item_id, language, reason))\<close>\<close>

definition record_failure :: "json \<Rightarrow> string \<Rightarrow> string \<Rightarrow> state \<Rightarrow> state" where
  "record_failure item_id language reason s =
     s\<lparr>failed_requests := failed_requests s @ [(item_id, language, reason)]\<rparr>"

text \<open>
  \<^verbatim>\<open>response.raise_for_status()\<close> raises for the status codes from 400 to 599; the result
  is the text of the exception when it raises.
\<close>

definition raise_for_status :: "response \<Rightarrow> string option" where
  "raise_for_status r =
     (if 400 \<le> status_code r \<and> status_code r < 600 then Some (http_error r) else None)"

section \<open>Decimal text of an integer\<close>

definition digit_char :: "nat \<Rightarrow> char" where
  "digit_char d = ''0123456789'' ! d"

fun str_nat :: "nat \<Rightarrow> string" where
  "str_nat n = (if n < 10 then [digit_char n] else str_nat (n div 10) @ [digit_char (n mod 10)])"

text \<open>\<^verbatim>\<open>str(i)\<close> for a Python \<^verbatim>\<open>int\<close>, as the f-string formats the status code.\<close>

definition str_int :: "int \<Rightarrow> string" where
  "str_int i = (if i < 0 then CHR ''-'' # str_nat (nat (- i)) else str_nat (nat i))"

section \<open>fetch_name\<close>

text \<open>
  The lines after \<^verbatim>\<open>data = response.json()\<close>: \<^verbatim>\<open>data.get("fields", {})\<close> and
  \<^verbatim>\<open>fields.get("Name")\<close>. Only a \<^verbatim>\<open>dict\<close> has \<^verbatim>\<open>get\<close>; on any other value
  the attribute lookup raises \<^verbatim>\<open>AttributeError\<close>.
\<close>

definition extract_name :: "json \<Rightarrow> exception + json" where
  "extract_name data =
     (case data of
        JObj kvs \<Rightarrow>
          (case dict_get (members kvs) ''fields'' (JObj []) of
             JObj fs \<Rightarrow> Inr (dict_get (members fs) ''Name'' JNull)
           | _ \<Rightarrow> Inl AttributeError)
      | _ \<Rightarrow> Inl AttributeError)"

text \<open>
  \<^verbatim>\<open>DyeNameFetcher.fetch_name(item_id, language, retry_count)\<close>. The result is the
  returned value (\<open>JNull\<close> for \<^verbatim>\<open>None\<close>) or the exception that leaves the call,
  with the state after the call.
\<close>

function fetch_name ::
  "(nat \<Rightarrow> outcome) \<Rightarrow> json \<Rightarrow> string \<Rightarrow> nat \<Rightarrow> state \<Rightarrow> (exception + json) \<times> state" where
  "fetch_name net item_id language retry_count s0 =
     (let s1 = sleep_request_delay s0;
          s2 = s1\<lparr>total_requests := total_requests s1 + 1\<rparr>;
          (got, s) = session_get net item_id language s2
      in case got of
           Response r \<Rightarrow>
             if status_code r = 429 then
               (if retry_count < MAX_RETRIES then
                  fetch_name net item_id language (retry_count + 1)
                    (sleep_seconds (2 ^ retry_count) s)
                else (Inr JNull, record_failure item_id language ''Rate limit'' s))
             else if status_code r = 404 then
               (Inr JNull, record_failure item_id language ''Not found'' s)
             else if status_code r \<ge> 500 then
               (if retry_count < MAX_RETRIES then
                  fetch_name net item_id language (retry_count + 1)
                    (sleep_seconds (2 ^ retry_count) s)
                else
                  (Inr JNull,
                   record_failure item_id language
                     (''Server error '' @ str_int (status_code r)) s))
             else
               (case raise_for_status r of
                  Some msg \<Rightarrow> (Inr JNull, record_failure item_id language msg s)
                | None \<Rightarrow>
                    (case body r of
                       Inl msg \<Rightarrow> (Inr JNull, record_failure item_id language msg s)
                     | Inr data \<Rightarrow>
                         (case extract_name data of
                            Inl e \<Rightarrow> (Inl e, s)
                          | Inr name \<Rightarrow>
                              if truthy name then
                                (Inr name, s\<lparr>successful_requests := successful_requests s + 1\<rparr>)
                              else
                                (Inr JNull,
                                 record_failure item_id language ''Missing Name field'' s))))
         | Timeout \<Rightarrow>
             if retry_count < MAX_RETRIES then
               fetch_name net item_id language (retry_count + 1) s
             else (Inr JNull, record_failure item_id language ''Timeout'' s)
         | RequestException msg \<Rightarrow>
             (Inr JNull, record_failure item_id language msg s))"
  by pat_completeness auto
termination
  by (relation "measure (\<lambda>(net, item_id, language, retry_count, s). MAX_RETRIES - retry_count)")
     auto

section \<open>fetch_all_languages\<close>

text \<open>
  The loop \<^verbatim>\<open>for lang in LANGUAGES: names[lang] = self.fetch_name(item_id, lang)\<close>
  over the languages still to do. An exception of \<open>fetch_name\<close> ends it.
\<close>

fun fetch_languages ::
  "(nat \<Rightarrow> outcome) \<Rightarrow> json \<Rightarrow> string list \<Rightarrow> (string \<rightharpoonup> json) \<Rightarrow> state
     \<Rightarrow> (exception + (string \<rightharpoonup> json)) \<times> state" where
  "fetch_languages net item_id [] names s = (Inr names, s)"
| "fetch_languages net item_id (lang # langs) names s =
     (case fetch_name net item_id lang 0 s of
        (Inl e, s') \<Rightarrow> (Inl e, s')
      | (Inr name, s') \<Rightarrow> fetch_languages net item_id langs (names(lang \<mapsto> name)) s')"

definition fetch_all_languages ::
  "(nat \<Rightarrow> outcome) \<Rightarrow> json \<Rightarrow> state \<Rightarrow> (exception + (string \<rightharpoonup> json)) \<times> state" where
  "fetch_all_languages net item_id s = fetch_languages net item_id LANGUAGES Map.empty s"

section \<open>load_dye_data\<close>

text \<open>
  The input file as the loader finds it: absent, not readable, not JSON, or JSON.
\<close>

datatype input_file =
    File_missing
  | File_unreadable
  | File_malformed
  | File_content json

text \<open>\<^verbatim>\<open>s.find(k) >= 0\<close>: the string \<open>k\<close> occurs in \<open>s\<close>.\<close>

fun occurs_in :: "string \<Rightarrow> string \<Rightarrow> bool" where
  "occurs_in k [] = (k = [])"
| "occurs_in k (c # cs) = (take (length k) (c # cs) = k \<or> occurs_in k cs)"

text \<open>
  \<^verbatim>\<open>key in value\<close> for a string \<open>key\<close>: a key of a \<^verbatim>\<open>dict\<close>, a substring of a
  \<^verbatim>\<open>str\<close>, an element of a \<^verbatim>\<open>list\<close>; \<^verbatim>\<open>TypeError\<close> on a value that is not
  iterable.
\<close>

fun py_in :: "string \<Rightarrow> json \<Rightarrow> exception + bool" where
  "py_in k (JObj kvs) = Inr (members kvs k \<noteq> None)"
| "py_in k (JStr s) = Inr (occurs_in k s)"
| "py_in k (JArr xs) = Inr (JStr k \<in> set xs)"
| "py_in k v = Inl TypeError"

text \<open>
  \<^verbatim>\<open>value[key]\<close> for a string \<open>key\<close>: the member of a \<^verbatim>\<open>dict\<close>; a \<^verbatim>\<open>str\<close> and a
  \<^verbatim>\<open>list\<close> take integer indices only.
\<close>

fun py_getitem :: "json \<Rightarrow> string \<Rightarrow> exception + json" where
  "py_getitem (JObj kvs) k = (case members kvs k of None \<Rightarrow> Inl KeyError | Some v \<Rightarrow> Inr v)"
| "py_getitem v k = Inl TypeError"

text \<open>
  The loop \<^verbatim>\<open>for dye in dyes\<close> of \<open>load_dye_data\<close>, with the list \<open>item_ids\<close> built so
  far and the entries for which the warning \<^verbatim>\<open>Dye entry missing 'itemID'\<close> was printed
  so far.
\<close>

fun extract_item_ids ::
  "json list \<Rightarrow> json list \<Rightarrow> json list \<Rightarrow> exception + (json list \<times> json list)" where
  "extract_item_ids [] item_ids warned = Inr (item_ids, warned)"
| "extract_item_ids (dye # dyes) item_ids warned =
     (case py_in ''itemID'' dye of
        Inl e \<Rightarrow> Inl e
      | Inr False \<Rightarrow> extract_item_ids dyes item_ids (warned @ [dye])
      | Inr True \<Rightarrow>
          (case py_getitem dye ''itemID'' of
             Inl e \<Rightarrow> Inl e
           | Inr v \<Rightarrow> extract_item_ids dyes (item_ids @ [v]) warned))"

text \<open>
  \<open>load_dye_data\<close>: the item IDs and the entries warned about, or the exception that
  ends the process.
\<close>

definition load_dye_data :: "input_file \<Rightarrow> exception + (json list \<times> json list)" where
  "load_dye_data f =
     (case f of
        File_missing \<Rightarrow> Inl (SystemExit 1)
      | File_malformed \<Rightarrow> Inl (SystemExit 1)
      | File_unreadable \<Rightarrow> Inl (SystemExit 1)
      | File_content dyes \<Rightarrow>
          (case dyes of
             JArr ds \<Rightarrow> extract_item_ids ds [] []
           | _ \<Rightarrow> Inl (SystemExit 1)))"

section \<open>generate_csv\<close>

text \<open>The dictionary \<^verbatim>\<open>{'itemID': item_id, 'names': names}\<close> of \<open>main\<close>.\<close>

record name_record =
  itemID :: json
  names :: "string \<rightharpoonup> json"

definition fieldnames :: "string list" where
  "fieldnames = [''itemID'', ''English Name'', ''Japanese Name'', ''German Name'', ''French Name'']"

text \<open>
  The text the \<^verbatim>\<open>csv\<close> writer puts in a field: nothing for \<^verbatim>\<open>None\<close>, a string as
  it is, and \<^verbatim>\<open>str(v)\<close> for any other value; \<open>py_str\<close> is that function of the Python
  runtime.
\<close>

definition csv_field :: "(json \<Rightarrow> string) \<Rightarrow> json \<Rightarrow> string" where
  "csv_field py_str v = (case v of JNull \<Rightarrow> [] | JStr s \<Rightarrow> s | _ \<Rightarrow> py_str v)"

text \<open>The row written for one entry of \<open>dye_data\<close>, field by field in the order of \<open>fieldnames\<close>.\<close>

definition csv_row :: "(json \<Rightarrow> string) \<Rightarrow> name_record \<Rightarrow> string list" where
  "csv_row py_str dye =
     map (csv_field py_str)
       [itemID dye,
        dict_get (names dye) ''en'' (JStr []),
        dict_get (names dye) ''ja'' (JStr []),
        dict_get (names dye) ''de'' (JStr []),
        dict_get (names dye) ''fr'' (JStr [])]"

text \<open>
  \<open>generate_csv\<close>: the rows of the file written, header first. Creating the output
  directory is outside the \<^verbatim>\<open>try\<close>, so its failure leaves as \<^verbatim>\<open>OSError\<close>; a failure
  while writing is caught and ends the process with \<^verbatim>\<open>sys.exit(1)\<close>.
\<close>

definition generate_csv ::
  "(json \<Rightarrow> string) \<Rightarrow> bool \<Rightarrow> bool \<Rightarrow> name_record list \<Rightarrow> exception + string list list" where
  "generate_csv py_str mkdir_ok write_ok dye_data =
     (if \<not> mkdir_ok then Inl OSError
      else if \<not> write_ok then Inl (SystemExit 1)
      else Inr (fieldnames # map (csv_row py_str) dye_data))"

section \<open>main\<close>

text \<open>
  The loop \<^verbatim>\<open>for index, item_id in enumerate(item_ids, start=1)\<close> of \<open>main\<close> over the
  items still to do, with the list \<open>dye_data\<close> built so far.
\<close>

fun fetch_dyes ::
  "(nat \<Rightarrow> outcome) \<Rightarrow> json list \<Rightarrow> name_record list \<Rightarrow> state
     \<Rightarrow> (exception + name_record list) \<times> state" where
  "fetch_dyes net [] dye_data s = (Inr dye_data, s)"
| "fetch_dyes net (item_id # item_ids) dye_data s =
     (case fetch_all_languages net item_id s of
        (Inl e, s') \<Rightarrow> (Inl e, s')
      | (Inr nms, s') \<Rightarrow>
          fetch_dyes net item_ids (dye_data @ [\<lparr>itemID = item_id, names = nms\<rparr>]) s')"

text \<open>What the process finds around it.\<close>

record world =
  colors_json :: input_file
  endpoint :: "nat \<Rightarrow> outcome"
  mkdir_ok :: bool
  write_ok :: bool

text \<open>
  What a run leaves: the exception that ends it (\<open>main\<close> always ends in one, its last
  statement is \<^verbatim>\<open>sys.exit\<close>), the rows of the CSV file if it was written, the entries
  warned about by the loader, and the fetcher with the effects.
\<close>

record run =
  ended :: exception
  csv_file :: "string list list option"
  warned_entries :: "json list"
  final :: state

definition main :: "(json \<Rightarrow> string) \<Rightarrow> world \<Rightarrow> run" where
  "main py_str w =
     (case load_dye_data (colors_json w) of
        Inl e \<Rightarrow> \<lparr>ended = e, csv_file = None, warned_entries = [], final = init\<rparr>
      | Inr (item_ids, warned) \<Rightarrow>
          (case fetch_dyes (endpoint w) item_ids [] init of
             (Inl e, s) \<Rightarrow> \<lparr>ended = e, csv_file = None, warned_entries = warned, final = s\<rparr>
           | (Inr dye_data, s) \<Rightarrow>
               (case generate_csv py_str (mkdir_ok w) (write_ok w) dye_data of
                  Inl e \<Rightarrow> \<lparr>ended = e, csv_file = None, warned_entries = warned, final = s\<rparr>
                | Inr rows \<Rightarrow>
                    \<lparr>ended = SystemExit (if length (failed_requests s) = 0 then 0 else 1),
                     csv_file = Some rows, warned_entries = warned, final = s\<rparr>)))"

text \<open>
  The exit status of the process: the argument of \<^verbatim>\<open>sys.exit\<close>, and 1 when an
  exception reaches the top level.
\<close>

definition exit_code :: "exception \<Rightarrow> int" where
  "exit_code e = (case e of SystemExit c \<Rightarrow> c | _ \<Rightarrow> 1)"

section \<open>Notions of the specification\<close>

text \<open>
  The \<open>itemID\<close> field of an element of the input array, for an element that is an object
  and has one.
\<close>

fun itemID_field :: "json \<Rightarrow> json option" where
  "itemID_field (JObj kvs) = members kvs ''itemID''"
| "itemID_field v = None"

fun is_object :: "json \<Rightarrow> bool" where
  "is_object (JObj kvs) = True"
| "is_object v = False"

section \<open>Simulated endpoints\<close>

text \<open>A response with status 200 whose body holds the given name under \<open>fields\<close>.\<close>

definition named :: "string \<Rightarrow> response" where
  "named n =
     \<lparr>status_code = 200, http_error = [],
      body = Inr (JObj [(''fields'', JObj [(''Name'', JStr n)])])\<rparr>"

text \<open>A response with the given status and a body that is not JSON.\<close>

definition status_only :: "int \<Rightarrow> response" where
  "status_only c =
     \<lparr>status_code = c, http_error = str_int c @ '' Error'', body = Inl ''Expecting value''\<rparr>"

definition twice_429_then_ok :: "nat \<Rightarrow> outcome" where
  "twice_429_then_ok n =
     (if n < 2 then Response (status_only 429) else Response (named ''Snow White''))"

definition always_500 :: "nat \<Rightarrow> outcome" where
  "always_500 n = Response (status_only 500)"

definition always_404 :: "nat \<Rightarrow> outcome" where
  "always_404 n = Response (status_only 404)"

definition always_timeout :: "nat \<Rightarrow> outcome" where
  "always_timeout n = Timeout"

definition always_named :: "nat \<Rightarrow> outcome" where
  "always_named n = Response (named ''Snow White'')"

definition always_empty_name :: "nat \<Rightarrow> outcome" where
  "always_empty_name n = Response (named [])"

text \<open>English answers with the name, the other languages with an empty name.\<close>

definition english_only :: "nat \<Rightarrow> outcome" where
  "english_only n = Response (named (if n mod 4 = 0 then ''Snow White'' else []))"

text \<open>\<^verbatim>\<open>str\<close> on the values of the examples, which are integers.\<close>

definition str_value :: "json \<Rightarrow> string" where
  "str_value v = (case v of JInt i \<Rightarrow> str_int i | _ \<Rightarrow> [])"

definition snow_white :: "string \<rightharpoonup> json" where
  "snow_white =
     [''en'' \<mapsto> JStr ''Snow White'', ''ja'' \<mapsto> JStr ''Snow White'',
      ''de'' \<mapsto> JStr ''Snow White'', ''fr'' \<mapsto> JStr ''Snow White'']"

text \<open>The input \<^verbatim>\<open>[{"itemID": 1}]\<close> with a disk that can be written.\<close>

definition one_dye :: world where
  "one_dye =
     \<lparr>colors_json = File_content (JArr [JObj [(''itemID'', JInt 1)]]),
      endpoint = english_only, mkdir_ok = True, write_ok = True\<rparr>"

definition one_dye_named :: world where
  "one_dye_named =
     \<lparr>colors_json = File_content (JArr [JObj [(''itemID'', JInt 1)]]),
      endpoint = always_named, mkdir_ok = True, write_ok = True\<rparr>"

section \<open>Facts about the state\<close>

declare fetch_name.simps [simp del]
declare str_nat.simps [simp del]

lemma requests_sent_events [simp]:
  "requests_sent (s\<lparr>events := es\<rparr>) = length (filter is_get es)"
  by (simp add: requests_sent_def)

lemma requests_sent_total [simp]:
  "requests_sent (s\<lparr>total_requests := n\<rparr>) = requests_sent s"
  by (simp add: requests_sent_def)

lemma requests_sent_failed [simp]:
  "requests_sent (s\<lparr>failed_requests := fs\<rparr>) = requests_sent s"
  by (simp add: requests_sent_def)

lemma requests_sent_successful [simp]:
  "requests_sent (s\<lparr>successful_requests := n\<rparr>) = requests_sent s"
  by (simp add: requests_sent_def)

lemma requests_sent_init [simp]: "requests_sent init = 0"
  by (simp add: requests_sent_def init_def)

lemmas step_defs = session_get_def sleep_request_delay_def sleep_seconds_def record_failure_def

lemma str_int_500: "str_int 500 = ''500''"
  by (simp add: str_int_def str_nat.simps digit_char_def)

section \<open>One attempt of fetch_name\<close>

text \<open>
  Each lemma unfolds one call of \<open>fetch_name\<close> for one kind of outcome of its GET. The
  state after the GET has the pacing sleep and the GET appended to the effects and the
  request counted.
\<close>

lemma fetch_name_backoff:
  assumes "net (requests_sent s) = Response r"
    and "status_code r = 429 \<or> (status_code r \<noteq> 404 \<and> 500 \<le> status_code r)"
    and "retry_count < MAX_RETRIES"
  shows "fetch_name net i l retry_count s =
     fetch_name net i l (Suc retry_count)
       (s\<lparr>total_requests := Suc (total_requests s),
          events := events s @ [Sleep_request_delay, Get i l, Sleep_seconds (2 ^ retry_count)]\<rparr>)"
  using assms
  by (subst fetch_name.simps) (auto simp add: step_defs requests_sent_def)

lemma fetch_name_timeout_retry:
  assumes "net (requests_sent s) = Timeout"
    and "retry_count < MAX_RETRIES"
  shows "fetch_name net i l retry_count s =
     fetch_name net i l (Suc retry_count)
       (s\<lparr>total_requests := Suc (total_requests s),
          events := events s @ [Sleep_request_delay, Get i l]\<rparr>)"
  using assms
  by (subst fetch_name.simps) (auto simp add: step_defs requests_sent_def)

lemma fetch_name_rate_limit_final:
  assumes "net (requests_sent s) = Response r"
    and "status_code r = 429"
    and "\<not> retry_count < MAX_RETRIES"
  shows "fetch_name net i l retry_count s =
     (Inr JNull,
      s\<lparr>failed_requests := failed_requests s @ [(i, l, ''Rate limit'')],
        total_requests := Suc (total_requests s),
        events := events s @ [Sleep_request_delay, Get i l]\<rparr>)"
  using assms
  by (subst fetch_name.simps) (auto simp add: step_defs requests_sent_def)

lemma fetch_name_not_found:
  assumes "net (requests_sent s) = Response r"
    and "status_code r = 404"
  shows "fetch_name net i l retry_count s =
     (Inr JNull,
      s\<lparr>failed_requests := failed_requests s @ [(i, l, ''Not found'')],
        total_requests := Suc (total_requests s),
        events := events s @ [Sleep_request_delay, Get i l]\<rparr>)"
  using assms
  by (subst fetch_name.simps) (auto simp add: step_defs requests_sent_def)

lemma fetch_name_server_error_final:
  assumes "net (requests_sent s) = Response r"
    and "status_code r \<noteq> 429" "status_code r \<noteq> 404" "500 \<le> status_code r"
    and "\<not> retry_count < MAX_RETRIES"
  shows "fetch_name net i l retry_count s =
     (Inr JNull,
      s\<lparr>failed_requests :=
          failed_requests s @ [(i, l, ''Server error '' @ str_int (status_code r))],
        total_requests := Suc (total_requests s),
        events := events s @ [Sleep_request_delay, Get i l]\<rparr>)"
  using assms
  by (subst fetch_name.simps) (auto simp add: step_defs requests_sent_def)

lemma fetch_name_timeout_final:
  assumes "net (requests_sent s) = Timeout"
    and "\<not> retry_count < MAX_RETRIES"
  shows "fetch_name net i l retry_count s =
     (Inr JNull,
      s\<lparr>failed_requests := failed_requests s @ [(i, l, ''Timeout'')],
        total_requests := Suc (total_requests s),
        events := events s @ [Sleep_request_delay, Get i l]\<rparr>)"
  using assms
  by (subst fetch_name.simps) (auto simp add: step_defs requests_sent_def)

lemma fetch_name_body:
  assumes "net (requests_sent s) = Response r"
    and "status_code r < 400"
    and "body r = Inr data"
    and "extract_name data = Inr name"
  shows "fetch_name net i l retry_count s =
     (if truthy name then
        (Inr name,
         s\<lparr>total_requests := Suc (total_requests s),
           successful_requests := Suc (successful_requests s),
           events := events s @ [Sleep_request_delay, Get i l]\<rparr>)
      else
        (Inr JNull,
         s\<lparr>failed_requests := failed_requests s @ [(i, l, ''Missing Name field'')],
           total_requests := Suc (total_requests s),
           events := events s @ [Sleep_request_delay, Get i l]\<rparr>))"
  using assms
  by (subst fetch_name.simps) (auto simp add: step_defs requests_sent_def raise_for_status_def)

lemma extract_name_fields:
  assumes "members kvs ''fields'' = Some (JObj fs)"
  shows "extract_name (JObj kvs) = Inr (dict_get (members fs) ''Name'' JNull)"
  using assms by (simp add: extract_name_def dict_get_def)

section \<open>Retrying after HTTP 429\<close>

text \<open>
  Claim C1. For every item and language: when the first two GETs of a call of
  \<open>fetch_name\<close> are answered with status 429 and the third with a 2xx response whose
  body has an object under \<open>fields\<close> with a name under \<open>Name\<close> (a name that Python counts
  as true), the call sleeps \<open>2 ^ 0 = 1\<close> second after the first attempt and
  \<open>2 ^ 1 = 2\<close> seconds after the second, returns the name from the third attempt, and
  the counter of total requests has grown by exactly three. Every attempt is preceded by
  the fixed pacing sleep; nothing is recorded as failed.
\<close>

theorem fetch_name_429_twice_then_success:
  assumes first: "net (requests_sent s) = Response r1" "status_code r1 = 429"
    and second: "net (requests_sent s + 1) = Response r2" "status_code r2 = 429"
    and third: "net (requests_sent s + 2) = Response r3"
      "200 \<le> status_code r3" "status_code r3 < 300"
      "body r3 = Inr (JObj kvs)"
      "members kvs ''fields'' = Some (JObj fs)"
      "members fs ''Name'' = Some name" "truthy name"
  shows "fetch_name net item_id language 0 s =
     (Inr name,
      s\<lparr>total_requests := total_requests s + 3,
        successful_requests := successful_requests s + 1,
        events := events s @
          [Sleep_request_delay, Get item_id language, Sleep_seconds (2 ^ 0),
           Sleep_request_delay, Get item_id language, Sleep_seconds (2 ^ 1),
           Sleep_request_delay, Get item_id language]\<rparr>)"
proof -
  let ?s1 = "s\<lparr>total_requests := Suc (total_requests s),
    events := events s @ [Sleep_request_delay, Get item_id language, Sleep_seconds (2 ^ 0)]\<rparr>"
  let ?s2 = "?s1\<lparr>total_requests := Suc (total_requests ?s1),
    events := events ?s1 @
      [Sleep_request_delay, Get item_id language, Sleep_seconds (2 ^ Suc 0)]\<rparr>"
  have a: "fetch_name net item_id language 0 s = fetch_name net item_id language (Suc 0) ?s1"
    using first fetch_name_backoff [of net s r1 0 item_id language]
    by (simp add: MAX_RETRIES_def)
  have n1: "requests_sent ?s1 = requests_sent s + 1"
    by (simp add: requests_sent_def)
  have b: "fetch_name net item_id language (Suc 0) ?s1 =
      fetch_name net item_id language (Suc (Suc 0)) ?s2"
    using second n1 fetch_name_backoff [of net ?s1 r2 "Suc 0" item_id language]
    by (simp add: MAX_RETRIES_def)
  have n2: "requests_sent ?s2 = requests_sent s + 2"
    by (simp add: requests_sent_def)
  have e: "extract_name (JObj kvs) = Inr name"
    using third by (simp add: extract_name_fields dict_get_def)
  have c: "fetch_name net item_id language (Suc (Suc 0)) ?s2 =
     (Inr name,
      ?s2\<lparr>total_requests := Suc (total_requests ?s2),
        successful_requests := Suc (successful_requests ?s2),
        events := events ?s2 @ [Sleep_request_delay, Get item_id language]\<rparr>)"
    using fetch_name_body [of net ?s2 r3 "JObj kvs" name item_id language "Suc (Suc 0)"]
      third n2 e
    by simp
  show ?thesis
    unfolding a b c by simp
qed

theorem fetch_name_429_twice_then_success_witness:
  "fetch_name twice_429_then_ok (JInt 5729) ''en'' 0 init =
     (Inr (JStr ''Snow White''),
      \<lparr>failed_requests = [], total_requests = 3, successful_requests = 1,
       events =
         [Sleep_request_delay, Get (JInt 5729) ''en'', Sleep_seconds 1,
          Sleep_request_delay, Get (JInt 5729) ''en'', Sleep_seconds 2,
          Sleep_request_delay, Get (JInt 5729) ''en'']\<rparr>)"
  using fetch_name_429_twice_then_success
    [of twice_429_then_ok init "status_only 429" "status_only 429" "named ''Snow White''"
        "[(''fields'', JObj [(''Name'', JStr ''Snow White'')])]"
        "[(''Name'', JStr ''Snow White'')]" "JStr ''Snow White''" "JInt 5729" "''en''"]
  by (simp add: twice_429_then_ok_def status_only_def named_def members_def init_def
      requests_sent_def)

section \<open>The number of attempts of one call\<close>

text \<open>
  A call either ends after its GET, or its retry count is below \<open>MAX_RETRIES\<close> and it
  continues as the call with the next retry count from a state with one more request.
\<close>

lemma fetch_name_step:
  "(retry_count < MAX_RETRIES \<and>
      (\<exists>s1. fetch_name net i l retry_count s = fetch_name net i l (Suc retry_count) s1 \<and>
         requests_sent s1 = Suc (requests_sent s) \<and>
         total_requests s1 = Suc (total_requests s))) \<or>
   (requests_sent (snd (fetch_name net i l retry_count s)) = Suc (requests_sent s) \<and>
    total_requests (snd (fetch_name net i l retry_count s)) = Suc (total_requests s))"
proof (cases "net (requests_sent s)")
  case (Response r)
  show ?thesis
  proof (cases "(status_code r = 429 \<or> (status_code r \<noteq> 404 \<and> 500 \<le> status_code r)) \<and>
      retry_count < MAX_RETRIES")
    case True
    then have "fetch_name net i l retry_count s =
      fetch_name net i l (Suc retry_count)
       (s\<lparr>total_requests := Suc (total_requests s),
          events := events s @
            [Sleep_request_delay, Get i l, Sleep_seconds (2 ^ retry_count)]\<rparr>)"
      using Response fetch_name_backoff [of net s r retry_count i l] by blast
    moreover have "requests_sent (s\<lparr>total_requests := Suc (total_requests s),
          events := events s @
            [Sleep_request_delay, Get i l, Sleep_seconds (2 ^ retry_count)]\<rparr>) =
        Suc (requests_sent s)"
      by (simp add: requests_sent_def)
    ultimately show ?thesis using True by auto
  next
    case False
    then have "requests_sent (snd (fetch_name net i l retry_count s)) = Suc (requests_sent s) \<and>
      total_requests (snd (fetch_name net i l retry_count s)) = Suc (total_requests s)"
      using Response
      by (subst (1 2) fetch_name.simps)
         (auto simp add: step_defs requests_sent_def Let_def split: option.splits sum.splits)
    then show ?thesis by blast
  qed
next
  case Timeout
  show ?thesis
  proof (cases "retry_count < MAX_RETRIES")
    case True
    then have "fetch_name net i l retry_count s =
      fetch_name net i l (Suc retry_count)
       (s\<lparr>total_requests := Suc (total_requests s),
          events := events s @ [Sleep_request_delay, Get i l]\<rparr>)"
      using Timeout fetch_name_timeout_retry [of net s retry_count i l] by blast
    moreover have "requests_sent (s\<lparr>total_requests := Suc (total_requests s),
          events := events s @ [Sleep_request_delay, Get i l]\<rparr>) = Suc (requests_sent s)"
      by (simp add: requests_sent_def)
    ultimately show ?thesis using True by auto
  next
    case False
    then show ?thesis
      using Timeout fetch_name_timeout_final [of net s retry_count i l]
      by (simp add: requests_sent_def)
  qed
next
  case (RequestException msg)
  then have "requests_sent (snd (fetch_name net i l retry_count s)) = Suc (requests_sent s) \<and>
      total_requests (snd (fetch_name net i l retry_count s)) = Suc (total_requests s)"
    by (subst (1 2) fetch_name.simps) (auto simp add: step_defs requests_sent_def)
  then show ?thesis by blast
qed

lemma fetch_name_attempts:
  "requests_sent s < requests_sent (snd (fetch_name net i l retry_count s)) \<and>
   requests_sent (snd (fetch_name net i l retry_count s)) \<le>
     requests_sent s + 1 + (MAX_RETRIES - retry_count) \<and>
   total_requests (snd (fetch_name net i l retry_count s)) - total_requests s =
     requests_sent (snd (fetch_name net i l retry_count s)) - requests_sent s \<and>
   total_requests s < total_requests (snd (fetch_name net i l retry_count s))"
proof (induction "MAX_RETRIES - retry_count" arbitrary: retry_count s)
  case 0
  then have "\<not> retry_count < MAX_RETRIES" by simp
  then show ?case
    using fetch_name_step [of retry_count net i l s] by auto
next
  case (Suc n)
  show ?case
  proof (cases "\<exists>s1. fetch_name net i l retry_count s = fetch_name net i l (Suc retry_count) s1 \<and>
      requests_sent s1 = Suc (requests_sent s) \<and>
      total_requests s1 = Suc (total_requests s)")
    case True
    then obtain s1 where s1:
      "fetch_name net i l retry_count s = fetch_name net i l (Suc retry_count) s1"
      "requests_sent s1 = Suc (requests_sent s)" "total_requests s1 = Suc (total_requests s)"
      by blast
    have "n = MAX_RETRIES - Suc retry_count" using Suc.hyps(2) by simp
    from Suc.hyps(1) [OF this, of s1] s1 Suc.hyps(2) show ?thesis
      by auto
  next
    case False
    then show ?thesis
      using fetch_name_step [of retry_count net i l s] by auto
  qed
qed

text \<open>
  Claim C3. \<open>fetch_name\<close> is a total function: its recursion is accepted with the measure
  \<open>MAX_RETRIES - retry_count\<close>, since every recursive call is made under the test
  \<open>retry_count < MAX_RETRIES\<close> with the retry count increased by one. So for every item,
  language, endpoint and state a call returns, and it issues at least one and at most
  \<open>1 + (MAX_RETRIES - retry_count)\<close> GETs: at most \<open>1 + MAX_RETRIES = 4\<close> for a call that
  starts with retry count 0. The counter of total requests grows by the number of GETs.
\<close>

theorem fetch_name_at_most_four_attempts:
  "(\<exists>result s'. fetch_name net item_id language 0 s = (result, s') \<and>
      requests_sent s + 1 \<le> requests_sent s' \<and>
      requests_sent s' \<le> requests_sent s + 4 \<and>
      total_requests s' - total_requests s = requests_sent s' - requests_sent s) \<and>
   requests_sent (snd (fetch_name net item_id language retry_count s)) \<le>
     requests_sent s + 1 + (MAX_RETRIES - retry_count) \<and>
   1 + MAX_RETRIES = 4"
proof -
  obtain result s' where r: "fetch_name net item_id language 0 s = (result, s')"
    by (cases "fetch_name net item_id language 0 s")
  have "requests_sent s + 1 \<le> requests_sent s' \<and>
      requests_sent s' \<le> requests_sent s + 4 \<and>
      total_requests s' - total_requests s = requests_sent s' - requests_sent s"
    using fetch_name_attempts [of s net item_id language 0] r
    by (simp add: MAX_RETRIES_def)
  with r show ?thesis
    using fetch_name_attempts [of s net item_id language retry_count]
    by (simp add: MAX_RETRIES_def)
qed

section \<open>Server errors on every attempt\<close>

text \<open>
  Claim C2. For every item and language: when every GET of a call of \<open>fetch_name\<close> (the
  first attempt and the \<open>MAX_RETRIES\<close> retries) is answered with status 500, the call
  makes \<open>1 + MAX_RETRIES\<close> attempts, sleeps \<open>2 ^ 0\<close>, \<open>2 ^ 1\<close> and \<open>2 ^ 2\<close> seconds
  between them, returns \<^verbatim>\<open>None\<close>, and appends exactly one entry, with the reason
  \<^verbatim>\<open>Server error 500\<close>, to the list of failed requests.
\<close>

theorem fetch_name_500_exhausts_retries:
  assumes "\<And>k. k \<le> MAX_RETRIES \<Longrightarrow>
      \<exists>r. net (requests_sent s + k) = Response r \<and> status_code r = 500"
  shows "fetch_name net item_id language 0 s =
     (Inr JNull,
      s\<lparr>failed_requests := failed_requests s @ [(item_id, language, ''Server error 500'')],
        total_requests := total_requests s + (1 + MAX_RETRIES),
        events := events s @
          [Sleep_request_delay, Get item_id language, Sleep_seconds (2 ^ 0),
           Sleep_request_delay, Get item_id language, Sleep_seconds (2 ^ 1),
           Sleep_request_delay, Get item_id language, Sleep_seconds (2 ^ 2),
           Sleep_request_delay, Get item_id language]\<rparr>)"
proof -
  obtain r0 where r0: "net (requests_sent s) = Response r0" "status_code r0 = 500"
    using assms [of 0] by auto
  obtain r1 where r1: "net (requests_sent s + 1) = Response r1" "status_code r1 = 500"
    using assms [of 1] by (auto simp add: MAX_RETRIES_def)
  obtain r2 where r2: "net (requests_sent s + 2) = Response r2" "status_code r2 = 500"
    using assms [of 2] by (auto simp add: MAX_RETRIES_def)
  obtain r3 where r3: "net (Suc (Suc (Suc (requests_sent s)))) = Response r3"
      "status_code r3 = 500"
    using assms [of "Suc (Suc (Suc 0))"] by (auto simp add: MAX_RETRIES_def)
  let ?s1 = "s\<lparr>total_requests := Suc (total_requests s),
    events := events s @ [Sleep_request_delay, Get item_id language, Sleep_seconds (2 ^ 0)]\<rparr>"
  let ?s2 = "?s1\<lparr>total_requests := Suc (total_requests ?s1),
    events := events ?s1 @
      [Sleep_request_delay, Get item_id language, Sleep_seconds (2 ^ Suc 0)]\<rparr>"
  let ?s3 = "?s2\<lparr>total_requests := Suc (total_requests ?s2),
    events := events ?s2 @
      [Sleep_request_delay, Get item_id language, Sleep_seconds (2 ^ Suc (Suc 0))]\<rparr>"
  have a: "fetch_name net item_id language 0 s = fetch_name net item_id language (Suc 0) ?s1"
    using r0 fetch_name_backoff [of net s r0 0 item_id language]
    by (simp add: MAX_RETRIES_def)
  have n1: "requests_sent ?s1 = requests_sent s + 1"
    by (simp add: requests_sent_def)
  have b: "fetch_name net item_id language (Suc 0) ?s1 =
      fetch_name net item_id language (Suc (Suc 0)) ?s2"
    using r1 n1 fetch_name_backoff [of net ?s1 r1 "Suc 0" item_id language]
    by (simp add: MAX_RETRIES_def)
  have n2: "requests_sent ?s2 = requests_sent s + 2"
    by (simp add: requests_sent_def)
  have c: "fetch_name net item_id language (Suc (Suc 0)) ?s2 =
      fetch_name net item_id language (Suc (Suc (Suc 0))) ?s3"
    using r2 n2 fetch_name_backoff [of net ?s2 r2 "Suc (Suc 0)" item_id language]
    by (simp add: MAX_RETRIES_def)
  have n3: "requests_sent ?s3 = Suc (Suc (Suc (requests_sent s)))"
    by (simp add: requests_sent_def)
  have d: "fetch_name net item_id language (Suc (Suc (Suc 0))) ?s3 =
     (Inr JNull,
      ?s3\<lparr>failed_requests :=
          failed_requests ?s3 @ [(item_id, language, ''Server error '' @ str_int (status_code r3))],
        total_requests := Suc (total_requests ?s3),
        events := events ?s3 @ [Sleep_request_delay, Get item_id language]\<rparr>)"
    using r3 n3
      fetch_name_server_error_final [of net ?s3 r3 "Suc (Suc (Suc 0))" item_id language]
    by (simp add: MAX_RETRIES_def)
  show ?thesis
    unfolding a b c d using r3 by (simp add: str_int_500 MAX_RETRIES_def)
qed

theorem fetch_name_500_exhausts_retries_witness:
  "fetch_name always_500 (JInt 5729) ''ja'' 0 init =
     (Inr JNull,
      \<lparr>failed_requests = [(JInt 5729, ''ja'', ''Server error 500'')],
       total_requests = 4, successful_requests = 0,
       events =
         [Sleep_request_delay, Get (JInt 5729) ''ja'', Sleep_seconds 1,
          Sleep_request_delay, Get (JInt 5729) ''ja'', Sleep_seconds 2,
          Sleep_request_delay, Get (JInt 5729) ''ja'', Sleep_seconds 4,
          Sleep_request_delay, Get (JInt 5729) ''ja'']\<rparr>)"
  using fetch_name_500_exhausts_retries [of always_500 init "JInt 5729" "''ja''"]
  by (simp add: always_500_def status_only_def init_def MAX_RETRIES_def)

section \<open>Not found\<close>

text \<open>
  Claim C4. For every item and language: when the GET of a call of \<open>fetch_name\<close> is
  answered with status 404, the call issues exactly that one GET and does not retry,
  appends exactly one entry, with the reason \<^verbatim>\<open>Not found\<close>, to the list of failed
  requests, and returns \<^verbatim>\<open>None\<close>.
\<close>

theorem fetch_name_404_no_retry:
  assumes "net (requests_sent s) = Response r" "status_code r = 404"
  shows "fetch_name net item_id language retry_count s =
     (Inr JNull,
      s\<lparr>failed_requests := failed_requests s @ [(item_id, language, ''Not found'')],
        total_requests := total_requests s + 1,
        events := events s @ [Sleep_request_delay, Get item_id language]\<rparr>) \<and>
    requests_sent (snd (fetch_name net item_id language retry_count s)) = requests_sent s + 1"
  using assms fetch_name_not_found [of net s r item_id language retry_count]
  by (simp add: requests_sent_def)

theorem fetch_name_404_no_retry_witness:
  "fetch_name always_404 (JInt 5729) ''de'' 0 init =
     (Inr JNull,
      \<lparr>failed_requests = [(JInt 5729, ''de'', ''Not found'')],
       total_requests = 1, successful_requests = 0,
       events = [Sleep_request_delay, Get (JInt 5729) ''de'']\<rparr>) \<and>
   requests_sent (snd (fetch_name always_404 (JInt 5729) ''de'' 0 init)) = 1"
  using fetch_name_404_no_retry [of always_404 init "status_only 404" "JInt 5729" "''de''" 0]
  by (simp add: always_404_def status_only_def init_def requests_sent_def)

section \<open>Timeouts on every attempt\<close>

text \<open>
  Claim C5. For every item and language: when every GET of a call of \<open>fetch_name\<close> ends
  in a timeout, the call makes \<open>1 + MAX_RETRIES\<close> attempts, as many as for status 429
  or 5xx, with no sleep between them other than the fixed pacing sleep before each GET;
  then it appends one entry with the reason \<^verbatim>\<open>Timeout\<close> to the list of failed
  requests and returns \<^verbatim>\<open>None\<close>.
\<close>

theorem fetch_name_timeouts_exhaust_retries:
  assumes "\<And>k. k \<le> MAX_RETRIES \<Longrightarrow> net (requests_sent s + k) = Timeout"
  shows "fetch_name net item_id language 0 s =
     (Inr JNull,
      s\<lparr>failed_requests := failed_requests s @ [(item_id, language, ''Timeout'')],
        total_requests := total_requests s + (1 + MAX_RETRIES),
        events := events s @
          [Sleep_request_delay, Get item_id language,
           Sleep_request_delay, Get item_id language,
           Sleep_request_delay, Get item_id language,
           Sleep_request_delay, Get item_id language]\<rparr>)"
proof -
  have r0: "net (requests_sent s) = Timeout"
    using assms [of 0] by auto
  have r1: "net (requests_sent s + 1) = Timeout"
    using assms [of 1] by (auto simp add: MAX_RETRIES_def)
  have r2: "net (requests_sent s + 2) = Timeout"
    using assms [of 2] by (auto simp add: MAX_RETRIES_def)
  have r3: "net (Suc (Suc (Suc (requests_sent s)))) = Timeout"
    using assms [of "Suc (Suc (Suc 0))"] by (simp add: MAX_RETRIES_def)
  let ?s1 = "s\<lparr>total_requests := Suc (total_requests s),
    events := events s @ [Sleep_request_delay, Get item_id language]\<rparr>"
  let ?s2 = "?s1\<lparr>total_requests := Suc (total_requests ?s1),
    events := events ?s1 @ [Sleep_request_delay, Get item_id language]\<rparr>"
  let ?s3 = "?s2\<lparr>total_requests := Suc (total_requests ?s2),
    events := events ?s2 @ [Sleep_request_delay, Get item_id language]\<rparr>"
  have a: "fetch_name net item_id language 0 s = fetch_name net item_id language (Suc 0) ?s1"
    using r0 fetch_name_timeout_retry [of net s 0 item_id language]
    by (simp add: MAX_RETRIES_def)
  have n1: "requests_sent ?s1 = requests_sent s + 1"
    by (simp add: requests_sent_def)
  have b: "fetch_name net item_id language (Suc 0) ?s1 =
      fetch_name net item_id language (Suc (Suc 0)) ?s2"
    using r1 n1 fetch_name_timeout_retry [of net ?s1 "Suc 0" item_id language]
    by (simp add: MAX_RETRIES_def)
  have n2: "requests_sent ?s2 = requests_sent s + 2"
    by (simp add: requests_sent_def)
  have c: "fetch_name net item_id language (Suc (Suc 0)) ?s2 =
      fetch_name net item_id language (Suc (Suc (Suc 0))) ?s3"
    using r2 n2 fetch_name_timeout_retry [of net ?s2 "Suc (Suc 0)" item_id language]
    by (simp add: MAX_RETRIES_def)
  have n3: "requests_sent ?s3 = Suc (Suc (Suc (requests_sent s)))"
    by (simp add: requests_sent_def)
  have d: "fetch_name net item_id language (Suc (Suc (Suc 0))) ?s3 =
     (Inr JNull,
      ?s3\<lparr>failed_requests := failed_requests ?s3 @ [(item_id, language, ''Timeout'')],
        total_requests := Suc (total_requests ?s3),
        events := events ?s3 @ [Sleep_request_delay, Get item_id language]\<rparr>)"
    using r3 n3
      fetch_name_timeout_final [of net ?s3 "Suc (Suc (Suc 0))" item_id language]
    by (simp add: MAX_RETRIES_def)
  show ?thesis
    unfolding a b c d by (simp add: MAX_RETRIES_def)
qed

theorem fetch_name_timeouts_exhaust_retries_witness:
  "fetch_name always_timeout (JInt 5729) ''fr'' 0 init =
     (Inr JNull,
      \<lparr>failed_requests = [(JInt 5729, ''fr'', ''Timeout'')],
       total_requests = 4, successful_requests = 0,
       events =
         [Sleep_request_delay, Get (JInt 5729) ''fr'',
          Sleep_request_delay, Get (JInt 5729) ''fr'',
          Sleep_request_delay, Get (JInt 5729) ''fr'',
          Sleep_request_delay, Get (JInt 5729) ''fr'']\<rparr>)"
  using fetch_name_timeouts_exhaust_retries [of always_timeout init "JInt 5729" "''fr''"]
  by (simp add: always_timeout_def init_def MAX_RETRIES_def)

section \<open>An empty name\<close>

text \<open>
  Claim C10. For every item and language: when the GET is answered with a 2xx response
  whose body has an object under \<open>fields\<close> that maps \<open>Name\<close> to the empty string, the call
  returns \<^verbatim>\<open>None\<close>, appends an entry with the reason \<^verbatim>\<open>Missing Name field\<close> to
  the list of failed requests and leaves the counter of successful requests as it was:
  the same outcome as for the same response with no \<open>Name\<close> under \<open>fields\<close>.
\<close>

theorem fetch_name_empty_name:
  assumes "net (requests_sent s) = Response r"
    and "200 \<le> status_code r" "status_code r < 300"
    and "body r = Inr (JObj kvs)"
    and "members kvs ''fields'' = Some (JObj fs)"
    and "members fs ''Name'' = Some (JStr [])"
  shows "fetch_name net item_id language retry_count s =
     (Inr JNull,
      s\<lparr>failed_requests := failed_requests s @ [(item_id, language, ''Missing Name field'')],
        total_requests := total_requests s + 1,
        events := events s @ [Sleep_request_delay, Get item_id language]\<rparr>) \<and>
    successful_requests (snd (fetch_name net item_id language retry_count s)) =
      successful_requests s \<and>
    fetch_name (\<lambda>n. Response (r\<lparr>body := Inr (JObj [(''fields'', JObj [])])\<rparr>))
        item_id language retry_count s =
      fetch_name net item_id language retry_count s"
proof -
  have e: "extract_name (JObj kvs) = Inr (JStr [])"
    using assms by (simp add: extract_name_fields dict_get_def)
  have e': "extract_name (JObj [(''fields'', JObj [])]) = Inr JNull"
    by (simp add: extract_name_def dict_get_def members_def)
  show ?thesis
    using assms e e'
      fetch_name_body [of net s r "JObj kvs" "JStr []" item_id language retry_count]
      fetch_name_body [of "\<lambda>n. Response (r\<lparr>body := Inr (JObj [(''fields'', JObj [])])\<rparr>)" s
        "r\<lparr>body := Inr (JObj [(''fields'', JObj [])])\<rparr>" "JObj [(''fields'', JObj [])]"
        JNull item_id language retry_count]
    by simp
qed

theorem fetch_name_empty_name_witness:
  "fetch_name always_empty_name (JInt 5729) ''en'' 0 init =
     (Inr JNull,
      \<lparr>failed_requests = [(JInt 5729, ''en'', ''Missing Name field'')],
       total_requests = 1, successful_requests = 0,
       events = [Sleep_request_delay, Get (JInt 5729) ''en'']\<rparr>)"
  using fetch_name_empty_name [of always_empty_name init "named []"
      "[(''fields'', JObj [(''Name'', JStr [])])]" "[(''Name'', JStr [])]"
      "JInt 5729" "''en''" 0]
  by (simp add: always_empty_name_def named_def members_def init_def)


section \<open>Runs that end without an exception\<close>

text \<open>
  The only exception that leaves \<open>fetch_name\<close> is the \<^verbatim>\<open>AttributeError\<close> of a decoded
  body that is not an object, or whose \<open>fields\<close> member is not one. When the endpoint
  never answers with such a body, every call returns, and so do the loops over the
  languages and over the items.
\<close>

lemma fetch_name_returns:
  assumes "\<And>n r data. net n = Response r \<Longrightarrow> body r = Inr data \<Longrightarrow>
      \<exists>v. extract_name data = Inr v"
  shows "\<exists>v. fst (fetch_name net i l retry_count s) = Inr v"
proof (induction "MAX_RETRIES - retry_count" arbitrary: retry_count s)
  case 0
  then have "\<not> retry_count < MAX_RETRIES" by simp
  then show ?case
    using assms
    by (subst fetch_name.simps)
       (fastforce simp add: step_defs Let_def split: outcome.splits option.splits sum.splits)
next
  case (Suc n)
  then have n: "n = MAX_RETRIES - Suc retry_count" by simp
  show ?case
    using assms Suc.hyps(1) [OF n]
    by (subst fetch_name.simps)
       (fastforce simp add: step_defs Let_def split: outcome.splits option.splits sum.splits)
qed

lemma fetch_languages_returns:
  assumes "\<And>n r data. net n = Response r \<Longrightarrow> body r = Inr data \<Longrightarrow>
      \<exists>v. extract_name data = Inr v"
  shows "\<exists>nms'. fst (fetch_languages net i langs nms s) = Inr nms'"
proof (induction langs arbitrary: nms s)
  case Nil
  then show ?case by simp
next
  case (Cons lang langs)
  obtain res s1 where f: "fetch_name net i lang 0 s = (res, s1)"
    by (cases "fetch_name net i lang 0 s")
  have "\<exists>v. fst (fetch_name net i lang 0 s) = Inr v"
    using assms by (rule fetch_name_returns)
  with f obtain v where "res = Inr v"
    by auto
  with f Cons.IH show ?case by simp
qed

lemma fetch_dyes_returns:
  assumes "\<And>n r data. net n = Response r \<Longrightarrow> body r = Inr data \<Longrightarrow>
      \<exists>v. extract_name data = Inr v"
  shows "\<exists>data. fst (fetch_dyes net ids acc s) = Inr data"
proof (induction ids arbitrary: acc s)
  case Nil
  then show ?case by simp
next
  case (Cons i ids)
  obtain res s1 where f: "fetch_all_languages net i s = (res, s1)"
    by (cases "fetch_all_languages net i s")
  have "\<exists>nms. fst (fetch_languages net i LANGUAGES Map.empty s) = Inr nms"
    using assms by (rule fetch_languages_returns)
  with f obtain nms where "res = Inr nms"
    by (auto simp add: fetch_all_languages_def)
  with f Cons.IH show ?case by simp
qed

section \<open>The batch loop\<close>

lemma fetch_languages_dom:
  "fetch_languages net i langs nms s = (Inr nms', s') \<Longrightarrow> dom nms' = dom nms \<union> set langs"
proof (induction langs arbitrary: nms s)
  case Nil
  then show ?case by simp
next
  case (Cons lang langs)
  then show ?case
    by (auto split: prod.splits sum.splits)
qed

lemma fetch_all_languages_dom:
  "fetch_all_languages net i s = (Inr nms, s') \<Longrightarrow> dom nms = set LANGUAGES"
  using fetch_languages_dom [of net i LANGUAGES Map.empty s nms s']
  by (simp add: fetch_all_languages_def)

lemma fetch_dyes_acc:
  "fetch_dyes net ids acc s = (Inr data, s') \<Longrightarrow>
     \<exists>new. data = acc @ new \<and> map itemID new = ids \<and>
       (\<forall>r\<in>set new. dom (names r) = set LANGUAGES)"
proof (induction ids arbitrary: acc s)
  case Nil
  then show ?case by simp
next
  case (Cons i ids)
  obtain res s1 where f: "fetch_all_languages net i s = (res, s1)"
    by (cases "fetch_all_languages net i s")
  show ?case
  proof (cases res)
    case (Inl e)
    with Cons.prems f show ?thesis by simp
  next
    case (Inr nms)
    with Cons.prems f have
      "fetch_dyes net ids (acc @ [\<lparr>itemID = i, names = nms\<rparr>]) s1 = (Inr data, s')"
      by simp
    from Cons.IH [OF this] obtain new where new:
      "data = (acc @ [\<lparr>itemID = i, names = nms\<rparr>]) @ new" "map itemID new = ids"
      "\<forall>r\<in>set new. dom (names r) = set LANGUAGES"
      by blast
    have "dom nms = set LANGUAGES"
      using f Inr fetch_all_languages_dom by blast
    with new show ?thesis
      by (intro exI [of _ "\<lparr>itemID = i, names = nms\<rparr> # new"]) simp
  qed
qed

lemmas run_defs = fetch_all_languages_def LANGUAGES_def named_def members_def init_def
  extract_name_def dict_get_def raise_for_status_def step_defs requests_sent_def Let_def

text \<open>
  Claim C6, as stated, fails when an item ID occurs twice in the loaded list: the loop
  does not look at the IDs it has seen, so for the list \<open>[5, 5]\<close> the collected data
  holds two records with the item ID 5, not exactly one.
\<close>

theorem fetch_dyes_duplicate_ids_counterexample:
  "fst (fetch_dyes always_named [JInt 5, JInt 5] [] init) =
     Inr [\<lparr>itemID = JInt 5, names = snow_white\<rparr>, \<lparr>itemID = JInt 5, names = snow_white\<rparr>] \<and>
   count_list (map itemID [\<lparr>itemID = JInt 5, names = snow_white\<rparr>,
     \<lparr>itemID = JInt 5, names = snow_white\<rparr>]) (JInt 5) = 2"
  by (simp add: fetch_name.simps always_named_def snow_white_def run_defs)

text \<open>
  Claim C6, amended. For every loaded list of item IDs and every sequence of outcomes of
  the requests: when the batch loop runs to its end, the collected data holds exactly
  one record per element of the list, in the order of the list (an item ID that occurs
  several times has as many records), and the names of each record have an entry,
  possibly \<^verbatim>\<open>None\<close>, for each of the languages \<open>en\<close>, \<open>ja\<close>, \<open>de\<close> and \<open>fr\<close>, and for
  nothing else.
\<close>

theorem fetch_dyes_one_record_per_element:
  assumes "fetch_dyes net item_ids [] s = (Inr dye_data, s')"
  shows "length dye_data = length item_ids \<and>
    map itemID dye_data = item_ids \<and>
    (\<forall>r\<in>set dye_data. dom (names r) = {''en'', ''ja'', ''de'', ''fr''})"
proof -
  from fetch_dyes_acc [OF assms] have m: "map itemID dye_data = item_ids"
    and d: "\<forall>r\<in>set dye_data. dom (names r) = set LANGUAGES"
    by auto
  from m have "length dye_data = length item_ids"
    by (metis length_map)
  with m d show ?thesis
    by (simp add: LANGUAGES_def insert_commute)
qed

theorem fetch_dyes_one_record_per_element_witness:
  "fetch_dyes always_named [JInt 5, JInt 6] [] init =
     (Inr [\<lparr>itemID = JInt 5, names = snow_white\<rparr>, \<lparr>itemID = JInt 6, names = snow_white\<rparr>],
      snd (fetch_dyes always_named [JInt 5, JInt 6] [] init)) \<and>
   map itemID [\<lparr>itemID = JInt 5, names = snow_white\<rparr>, \<lparr>itemID = JInt 6, names = snow_white\<rparr>] =
     [JInt 5, JInt 6] \<and>
   dom snow_white = {''en'', ''ja'', ''de'', ''fr''}"
proof -
  have a: "fetch_dyes always_named [JInt 5, JInt 6] [] init =
     (Inr [\<lparr>itemID = JInt 5, names = snow_white\<rparr>, \<lparr>itemID = JInt 6, names = snow_white\<rparr>],
      snd (fetch_dyes always_named [JInt 5, JInt 6] [] init))"
    by (simp add: fetch_name.simps always_named_def snow_white_def run_defs)
  from fetch_dyes_one_record_per_element [OF a] a show ?thesis
    by simp
qed

section \<open>Loading the item IDs\<close>

lemma extract_item_ids_result:
  "extract_item_ids ds ids warned = Inr (ids', warned') \<Longrightarrow>
     ids' = ids @ List.map_filter itemID_field ds \<and>
     warned' = warned @ filter (\<lambda>d. itemID_field d = None) ds"
proof (induction ds arbitrary: ids warned)
  case Nil
  then show ?case by (simp add: map_filter_simps)
next
  case (Cons d ds)
  show ?case
  proof (cases d)
    case (JObj kvs)
    show ?thesis
    proof (cases "members kvs ''itemID''")
      case None
      with Cons.prems JObj have "extract_item_ids ds ids (warned @ [d]) = Inr (ids', warned')"
        by simp
      from Cons.IH [OF this] show ?thesis
        using JObj None by (simp add: map_filter_simps)
    next
      case (Some v)
      with Cons.prems JObj have "extract_item_ids ds (ids @ [v]) warned = Inr (ids', warned')"
        by simp
      from Cons.IH [OF this] show ?thesis
        using JObj Some by (simp add: map_filter_simps)
    qed
  next
    case (JStr t)
    with Cons.prems have "extract_item_ids ds ids (warned @ [d]) = Inr (ids', warned')"
      by (simp split: if_splits bool.splits)
    from Cons.IH [OF this] show ?thesis
      using JStr by (simp add: map_filter_simps)
  next
    case (JArr xs)
    with Cons.prems have "extract_item_ids ds ids (warned @ [d]) = Inr (ids', warned')"
      by (simp split: if_splits bool.splits)
    from Cons.IH [OF this] show ?thesis
      using JArr by (simp add: map_filter_simps)
  qed (use Cons.prems in simp_all)
qed

lemma extract_item_ids_objects:
  "\<forall>d\<in>set ds. is_object d \<Longrightarrow>
     extract_item_ids ds ids warned =
       Inr (ids @ List.map_filter itemID_field ds,
            warned @ filter (\<lambda>d. itemID_field d = None) ds)"
proof (induction ds arbitrary: ids warned)
  case Nil
  then show ?case by (simp add: map_filter_simps)
next
  case (Cons d ds)
  then obtain kvs where d: "d = JObj kvs"
    by (cases d) simp_all
  from Cons show ?case
    by (cases "members kvs ''itemID''") (simp_all add: d map_filter_simps)
qed

text \<open>
  Claim C9, as stated, fails for an input array with an element that is a number: the
  test \<^verbatim>\<open>"itemID" not in dye\<close> raises \<^verbatim>\<open>TypeError\<close> on it, nothing catches it, and
  the elements after it are not processed.
\<close>

theorem load_dye_data_non_object_counterexample:
  "load_dye_data (File_content (JArr [JInt 5, JObj [(''itemID'', JInt 5729)]])) = Inl TypeError"
  by (simp add: load_dye_data_def)

text \<open>
  Claim C9, amended. For every input JSON array whose elements are all objects: every
  element without an \<open>itemID\<close> field is skipped with a warning and the loader goes on with
  the elements after it; each element that has the field contributes the value of its
  \<open>itemID\<close> to the loaded list, in the order of the input.
\<close>

theorem load_dye_data_objects:
  assumes "\<forall>d\<in>set dyes. is_object d"
  shows "load_dye_data (File_content (JArr dyes)) =
     Inr (List.map_filter itemID_field dyes, filter (\<lambda>d. itemID_field d = None) dyes)"
  using extract_item_ids_objects [OF assms, of "[]" "[]"]
  by (simp add: load_dye_data_def)

theorem load_dye_data_objects_witness:
  "load_dye_data
     (File_content
       (JArr [JObj [(''itemID'', JInt 5729)], JObj [(''name'', JStr ''Snow White'')],
              JObj [(''itemID'', JInt 5730)]])) =
     Inr ([JInt 5729, JInt 5730], [JObj [(''name'', JStr ''Snow White'')]])"
  using load_dye_data_objects
    [of "[JObj [(''itemID'', JInt 5729)], JObj [(''name'', JStr ''Snow White'')],
          JObj [(''itemID'', JInt 5730)]]"]
  by (simp add: map_filter_simps members_def)

section \<open>The run as a whole\<close>

text \<open>A run that wrote the CSV file loaded the item IDs, finished the batch loop and
  ended in the final \<^verbatim>\<open>sys.exit\<close> of \<open>main\<close>.\<close>

lemma main_csv:
  assumes "csv_file (main py_str w) = Some rows"
  shows "\<exists>item_ids warned dye_data s.
     load_dye_data (colors_json w) = Inr (item_ids, warned) \<and>
     fetch_dyes (endpoint w) item_ids [] init = (Inr dye_data, s) \<and>
     rows = fieldnames # map (csv_row py_str) dye_data \<and>
     main py_str w =
       \<lparr>ended = SystemExit (if length (failed_requests s) = 0 then 0 else 1),
        csv_file = Some rows, warned_entries = warned, final = s\<rparr>"
proof (cases "load_dye_data (colors_json w)")
  case (Inl e)
  with assms show ?thesis by (simp add: main_def)
next
  case (Inr loaded)
  obtain item_ids warned where loaded: "loaded = (item_ids, warned)"
    by (cases loaded)
  obtain res s where f: "fetch_dyes (endpoint w) item_ids [] init = (res, s)"
    by (cases "fetch_dyes (endpoint w) item_ids [] init")
  show ?thesis
  proof (cases res)
    case (Inl e)
    with assms Inr loaded f show ?thesis by (simp add: main_def)
  next
    case fetched: (Inr dye_data)
    from assms Inr loaded f fetched have ok: "mkdir_ok w" "write_ok w"
      by (auto simp add: main_def generate_csv_def split: if_splits)
    with assms Inr loaded f fetched
    have "rows = fieldnames # map (csv_row py_str) dye_data"
      by (auto simp add: main_def generate_csv_def)
    moreover from ok Inr loaded f fetched
    have "main py_str w =
       \<lparr>ended = SystemExit (if length (failed_requests s) = 0 then 0 else 1),
        csv_file = Some (fieldnames # map (csv_row py_str) dye_data),
        warned_entries = warned, final = s\<rparr>"
      by (simp add: main_def generate_csv_def)
    ultimately show ?thesis
      using Inr loaded f fetched by blast
  qed
qed

text \<open>
  With an input array of objects, such an endpoint and a disk that can be written, the
  run writes the CSV file.
\<close>

lemma main_writes_csv:
  assumes "colors_json w = File_content (JArr dyes)"
    and "\<forall>d\<in>set dyes. is_object d"
    and "\<And>n r data. endpoint w n = Response r \<Longrightarrow> body r = Inr data \<Longrightarrow>
      \<exists>v. extract_name data = Inr v"
    and "mkdir_ok w" "write_ok w"
  shows "\<exists>rows. csv_file (main py_str w) = Some rows"
proof -
  have l: "load_dye_data (colors_json w) =
      Inr (List.map_filter itemID_field dyes, filter (\<lambda>d. itemID_field d = None) dyes)"
    using assms(1) extract_item_ids_objects [OF assms(2), of "[]" "[]"]
    by (simp add: load_dye_data_def)
  obtain res s where f:
    "fetch_dyes (endpoint w) (List.map_filter itemID_field dyes) [] init = (res, s)"
    by (cases "fetch_dyes (endpoint w) (List.map_filter itemID_field dyes) [] init")
  have "\<exists>data.
      fst (fetch_dyes (endpoint w) (List.map_filter itemID_field dyes) [] init) = Inr data"
    using assms(3) by (rule fetch_dyes_returns)
  with f obtain data where "res = Inr data"
    by auto
  with l f assms(4,5) show ?thesis
    by (simp add: main_def generate_csv_def)
qed

lemma csv_row_failed_name:
  assumes "k < 4" and "names r (LANGUAGES ! k) = None \<or> names r (LANGUAGES ! k) = Some JNull"
  shows "csv_row py_str r ! Suc k = []"
proof -
  from assms(1) have "k = 0 \<or> k = 1 \<or> k = 2 \<or> k = 3" by arith
  with assms(2) show ?thesis
    by (auto simp add: csv_row_def LANGUAGES_def dict_get_def csv_field_def)
qed

lemma main_one_dye:
  "main str_value one_dye =
     \<lparr>ended = SystemExit 1,
      csv_file = Some [fieldnames, [''1'', ''Snow White'', [], [], []]],
      warned_entries = [],
      final =
        \<lparr>failed_requests =
           [(JInt 1, ''ja'', ''Missing Name field''), (JInt 1, ''de'', ''Missing Name field''),
            (JInt 1, ''fr'', ''Missing Name field'')],
         total_requests = 4, successful_requests = 1,
         events =
           [Sleep_request_delay, Get (JInt 1) ''en'', Sleep_request_delay, Get (JInt 1) ''ja'',
            Sleep_request_delay, Get (JInt 1) ''de'', Sleep_request_delay, Get (JInt 1) ''fr'']\<rparr>\<rparr>"
  by (simp add: main_def one_dye_def load_dye_data_def generate_csv_def csv_row_def
      csv_field_def str_value_def str_int_def str_nat.simps digit_char_def english_only_def
      fetch_name.simps run_defs)

lemma main_one_dye_named:
  "main str_value one_dye_named =
     \<lparr>ended = SystemExit 0,
      csv_file =
        Some [fieldnames, [''1'', ''Snow White'', ''Snow White'', ''Snow White'', ''Snow White'']],
      warned_entries = [],
      final =
        \<lparr>failed_requests = [],
         total_requests = 4, successful_requests = 4,
         events =
           [Sleep_request_delay, Get (JInt 1) ''en'', Sleep_request_delay, Get (JInt 1) ''ja'',
            Sleep_request_delay, Get (JInt 1) ''de'', Sleep_request_delay, Get (JInt 1) ''fr'']\<rparr>\<rparr>"
  by (simp add: main_def one_dye_named_def load_dye_data_def generate_csv_def csv_row_def
      csv_field_def str_value_def str_int_def str_nat.simps digit_char_def always_named_def
      fetch_name.simps run_defs)

text \<open>
  Claim C7. For every input array and every run on it that writes the CSV file: the
  first row is the header \<^verbatim>\<open>itemID, English Name, Japanese Name, German Name, French Name\<close>;
  after it comes exactly one row per element of the input that has an \<open>itemID\<close> field,
  in the order of the input, the first field of the row being the text of that item ID;
  and in every row the field of a language whose name is missing or \<^verbatim>\<open>None\<close> (a
  failed fetch) is the empty string. A row is the list of its fields as the \<^verbatim>\<open>csv\<close>
  writer receives them.
\<close>

theorem csv_one_row_per_element:
  assumes "colors_json w = File_content (JArr dyes)"
    and "csv_file (main py_str w) = Some rows"
  shows "\<exists>dye_data.
     fst (fetch_dyes (endpoint w) (List.map_filter itemID_field dyes) [] init) = Inr dye_data \<and>
     rows = fieldnames # map (csv_row py_str) dye_data \<and>
     hd rows =
       [''itemID'', ''English Name'', ''Japanese Name'', ''German Name'', ''French Name''] \<and>
     length (tl rows) = length (filter (\<lambda>d. itemID_field d \<noteq> None) dyes) \<and>
     map hd (tl rows) = map (csv_field py_str) (List.map_filter itemID_field dyes) \<and>
     (\<forall>r\<in>set dye_data. \<forall>k<4.
        names r (LANGUAGES ! k) = None \<or> names r (LANGUAGES ! k) = Some JNull \<longrightarrow>
        csv_row py_str r ! Suc k = [])"
proof -
  from main_csv [OF assms(2)] obtain item_ids warned dye_data s where
    l: "load_dye_data (colors_json w) = Inr (item_ids, warned)"
    and f: "fetch_dyes (endpoint w) item_ids [] init = (Inr dye_data, s)"
    and r: "rows = fieldnames # map (csv_row py_str) dye_data"
    by blast
  from l assms(1) have "extract_item_ids dyes [] [] = Inr (item_ids, warned)"
    by (simp add: load_dye_data_def)
  from extract_item_ids_result [OF this] have ids: "item_ids = List.map_filter itemID_field dyes"
    by simp
  from fetch_dyes_acc [OF f] have m: "map itemID dye_data = item_ids"
    by auto
  have h: "map hd (map (csv_row py_str) dye_data) = map (csv_field py_str) (map itemID dye_data)"
    by (simp add: csv_row_def)
  have n: "length dye_data = length (filter (\<lambda>d. itemID_field d \<noteq> None) dyes)"
    using m ids by (metis length_map map_filter_def)
  show ?thesis
    using f r h n m ids csv_row_failed_name
    by (intro exI [of _ dye_data]) (auto simp add: fieldnames_def)
qed

theorem csv_one_row_per_element_witness:
  "csv_file (main str_value one_dye) =
     Some [[''itemID'', ''English Name'', ''Japanese Name'', ''German Name'', ''French Name''],
           [''1'', ''Snow White'', [], [], []]] \<and>
   (\<exists>dye_data.
     fst (fetch_dyes english_only
       (List.map_filter itemID_field [JObj [(''itemID'', JInt 1)]]) [] init) = Inr dye_data \<and>
     length dye_data = 1)"
proof -
  have a: "colors_json one_dye = File_content (JArr [JObj [(''itemID'', JInt 1)]])"
    by (simp add: one_dye_def)
  have b: "csv_file (main str_value one_dye) =
      Some [fieldnames, [''1'', ''Snow White'', [], [], []]]"
    by (simp add: main_one_dye)
  have e: "endpoint one_dye = english_only"
    by (simp add: one_dye_def)
  from csv_one_row_per_element [OF a b] e b show ?thesis
    by (auto simp add: fieldnames_def)
qed

text \<open>
  Claim C8. For every run that finishes the batch loop and writes the CSV file, the exit
  status of the process is 1 when the list of failed requests is not empty and 0 when
  it is empty, whichever items and languages failed.
\<close>

theorem exit_code_reflects_failures:
  assumes "csv_file (main py_str w) = Some rows"
  shows "exit_code (ended (main py_str w)) =
     (if failed_requests (final (main py_str w)) = [] then 0 else 1)"
proof -
  from main_csv [OF assms] obtain warned s where
    "main py_str w =
       \<lparr>ended = SystemExit (if length (failed_requests s) = 0 then 0 else 1),
        csv_file = Some rows, warned_entries = warned, final = s\<rparr>"
    by blast
  then show ?thesis
    by (simp add: exit_code_def)
qed

theorem exit_code_reflects_failures_witness:
  "exit_code (ended (main str_value one_dye_named)) = 0 \<and>
   failed_requests (final (main str_value one_dye_named)) = [] \<and>
   exit_code (ended (main str_value one_dye)) = 1 \<and>
   length (failed_requests (final (main str_value one_dye))) = 3"
  using exit_code_reflects_failures [of str_value one_dye_named
      "[fieldnames, [''1'', ''Snow White'', ''Snow White'', ''Snow White'', ''Snow White'']]"]
    exit_code_reflects_failures [of str_value one_dye
      "[fieldnames, [''1'', ''Snow White'', [], [], []]]"]
  by (simp add: main_one_dye main_one_dye_named)

end
